theory Spec2Isabelle
  imports
    Complex_Main
    "HOL-Library.Char_ord"
    "HOL-Library.List_Lexorder"
    "HOL-Library.Product_Lexorder"
begin

section \<open>Container yard management: the record store, statistics and placement\<close>

text \<open>
  The program is one script, \<^verbatim>\<open>app.py\<close>, that is run from top to bottom at every user
  interaction. It keeps a table of container records in the session
  (\<^verbatim>\<open>st.session_state.data\<close>), mirrors it to \<^verbatim>\<open>container_data.csv\<close>, and
  dispatches on a menu to one of four pages. The model below follows the script:
  the table is a list of records, the session and the file are the two fields of the
  state, each page is a function from the state to the new state and the widgets it
  renders, and a run of the script is \<open>load_data\<close> followed by the selected page.
\<close>

subsection \<open>Dates and times\<close>

text \<open>
  A calendar date is its proleptic Gregorian ordinal (what Python's
  \<^verbatim>\<open>date.toordinal()\<close> returns), so that \<^verbatim>\<open>(d2 - d1).days\<close> is the difference of two
  ordinals. \<open>ymd2ord\<close> is the standard library's conversion from year, month and day,
  used to write the dates of the scenarios.
\<close>

type_synonym date = int

definition is_leap :: "int \<Rightarrow> bool" where
  "is_leap y = (y mod 4 = 0 \<and> (y mod 100 \<noteq> 0 \<or> y mod 400 = 0))"

definition days_before_year :: "int \<Rightarrow> int" where
  "days_before_year year =
     (let y = year - 1 in y * 365 + y div 4 - y div 100 + y div 400)"

definition days_before_month :: "int \<Rightarrow> nat \<Rightarrow> int" where
  "days_before_month year month =
     [0, 0, 31, 59, 90, 120, 151, 181, 212, 243, 273, 304, 334] ! month
       + (if 2 < month \<and> is_leap year then 1 else 0)"

definition ymd2ord :: "int \<Rightarrow> nat \<Rightarrow> int \<Rightarrow> date" where
  "ymd2ord year month day = days_before_year year + days_before_month year month + day"

text \<open>
  A point in time (\<^verbatim>\<open>datetime.today()\<close>, a pandas Timestamp) is a date and the
  microseconds elapsed since its midnight; points in time compare lexicographically.
  A date read from the file is the Timestamp at its midnight.
\<close>

record datetime =
  day_of :: date
  micros_of :: nat

definition datetime_less :: "datetime \<Rightarrow> datetime \<Rightarrow> bool" where
  "datetime_less a b =
     (day_of a < day_of b \<or> (day_of a = day_of b \<and> micros_of a < micros_of b))"

definition midnight :: "date \<Rightarrow> datetime" where
  "midnight d = \<lparr>day_of = d, micros_of = 0\<rparr>"

subsection \<open>Records and the store\<close>

text \<open>
  A cell of a date column denotes a day, and pandas holds it in one of three ways: as
  the \<^verbatim>\<open>datetime.date\<close> object that \<^verbatim>\<open>st.date_input\<close> returns (lines 53-54), as the
  Timestamp that \<^verbatim>\<open>read_csv\<close> parses (line 30), or as the characters of the file when
  \<^verbatim>\<open>read_csv\<close> could not parse the column. The characters are a date written with or
  without a time of day (\<^verbatim>\<open>2024-01-03\<close> or \<^verbatim>\<open>2024-01-03 00:00:00\<close>).
\<close>

datatype date_format = Date_only | Date_time

datatype date_kind = Py_date | Timestamp | Text date_format

text \<open>
  A row of the table: the five columns, and how the two date cells are held. Every
  cell of a pandas column can be missing (NaN, NaT); the form always supplies the two
  dates, so \<open>arrival_date\<close> is kept as a date, and the other columns are options with
  \<open>None\<close> for the missing value. The kind of a missing cell, like the format of an
  empty field of the file, carries no information: it is copied and never looked at.
\<close>

record container_record =
  customer_name :: "string option"
  container_id :: "string option"
  arrival_date :: date
  delivery_date :: "date option"
  days_to_deliver :: "int option"
  arrival_kind :: date_kind
  delivery_kind :: date_kind

text \<open>The kinds of the cells of the two date columns that are not missing.\<close>

definition arrival_kinds :: "container_record list \<Rightarrow> date_kind list" where
  "arrival_kinds df = map arrival_kind df"

definition delivery_kinds :: "container_record list \<Rightarrow> date_kind list" where
  "delivery_kinds df = map delivery_kind (filter (\<lambda>r. delivery_date r \<noteq> None) df)"

text \<open>The exceptions that the script lets escape.\<close>

datatype error = TypeError | ArrowException

text \<open>\<^verbatim>\<open>calculate_days\<close> (lines 18-21).\<close>

definition calculate_days :: "date \<Rightarrow> date option \<Rightarrow> int option" where
  "calculate_days arrival delivery =
     (case delivery of None \<Rightarrow> None | Some d \<Rightarrow> Some (d - arrival))"

subsection \<open>The persisted file\<close>

text \<open>
  The file is a table of fields below a header line. The two text columns hold the
  characters that \<^verbatim>\<open>to_csv\<close> writes. A field of a date column is the day it denotes
  and the format it is written in (nothing for a missing value); the number column is
  kept as the number whose decimal rendering is written.

  \<^verbatim>\<open>to_csv\<close> writes a missing text cell as the empty field (\<^verbatim>\<open>na_rep=''\<close>) and any other
  cell as its characters. \<^verbatim>\<open>read_csv\<close> is called with its default
  \<^verbatim>\<open>na_values\<close> and \<^verbatim>\<open>keep_default_na=True\<close>: a field that is one of the default
  missing-value markers (the list of pandas 2) is read as NaN, in every column.
  (pandas also turns a text column all of whose entries look like numbers or booleans
  into that type; the model keeps the characters, and no statement below depends on
  such a column.)
\<close>

record csv_row =
  customer_name_field :: string
  container_id_field :: string
  arrival_date_field :: date
  delivery_date_field :: "date option"
  days_to_deliver_field :: "int option"
  arrival_format :: date_format
  delivery_format :: date_format

definition default_na_values :: "string list" where
  "default_na_values =
     ['''', ''#N/A'', ''#N/A N/A'', ''#NA'', ''-1.#IND'', ''-1.#QNAN'', ''-NaN'', ''-nan'',
      ''1.#IND'', ''1.#QNAN'', ''<NA>'', ''N/A'', ''NA'', ''NULL'', ''NaN'', ''None'',
      ''n/a'', ''nan'', ''null'']"

definition write_text :: "string option \<Rightarrow> string" where
  "write_text cell = (case cell of None \<Rightarrow> [] | Some t \<Rightarrow> t)"

definition read_text :: "string \<Rightarrow> string option" where
  "read_text field = (if field \<in> set default_na_values then None else Some field)"

text \<open>
  Writing a date column. A column whose cells, the missing ones aside, are all
  Timestamps has the dtype \<^verbatim>\<open>datetime64\<close>, and \<^verbatim>\<open>to_csv\<close> writes its midnights as dates.
  Any other column has the dtype \<^verbatim>\<open>object\<close>, and \<^verbatim>\<open>to_csv\<close> writes \<^verbatim>\<open>str\<close> of each cell: a
  Timestamp with its time of day, a \<^verbatim>\<open>datetime.date\<close> as a date, and characters as they
  are.
\<close>

definition datetime64 :: "date_kind list \<Rightarrow> bool" where
  "datetime64 kinds = list_all (\<lambda>k. k = Timestamp) kinds"

fun write_date :: "bool \<Rightarrow> date_kind \<Rightarrow> date_format" where
  "write_date dt64 Py_date = Date_only"
| "write_date dt64 Timestamp = (if dt64 then Date_only else Date_time)"
| "write_date dt64 (Text f) = f"

definition to_csv_row :: "bool \<Rightarrow> bool \<Rightarrow> container_record \<Rightarrow> csv_row" where
  "to_csv_row arrival64 delivery64 r =
     \<lparr>customer_name_field = write_text (customer_name r),
      container_id_field = write_text (container_id r),
      arrival_date_field = arrival_date r,
      delivery_date_field = delivery_date r,
      days_to_deliver_field = days_to_deliver r,
      arrival_format = write_date arrival64 (arrival_kind r),
      delivery_format = write_date delivery64 (delivery_kind r)\<rparr>"

definition to_csv :: "container_record list \<Rightarrow> csv_row list" where
  "to_csv df =
     map (to_csv_row (datetime64 (arrival_kinds df)) (datetime64 (delivery_kinds df))) df"

text \<open>
  Reading a date column (\<^verbatim>\<open>parse_dates\<close>). pandas 2 takes the format of the first field
  that is not empty and parses the whole column with it: when every field has that
  format the cells are Timestamps; when one does not, the conversion fails and the
  column is left as the characters of the file.
\<close>

definition one_format :: "date_format list \<Rightarrow> bool" where
  "one_format fs = (case fs of [] \<Rightarrow> True | f # rest \<Rightarrow> list_all (\<lambda>g. g = f) rest)"

definition arrival_formats :: "csv_row list \<Rightarrow> date_format list" where
  "arrival_formats rows = map arrival_format rows"

definition delivery_formats :: "csv_row list \<Rightarrow> date_format list" where
  "delivery_formats rows =
     map delivery_format (filter (\<lambda>w. delivery_date_field w \<noteq> None) rows)"

definition read_date :: "bool \<Rightarrow> date_format \<Rightarrow> date_kind" where
  "read_date parsed f = (if parsed then Timestamp else Text f)"

definition read_csv_row :: "bool \<Rightarrow> bool \<Rightarrow> csv_row \<Rightarrow> container_record" where
  "read_csv_row arrival_parsed delivery_parsed w =
     \<lparr>customer_name = read_text (customer_name_field w),
      container_id = read_text (container_id_field w),
      arrival_date = arrival_date_field w,
      delivery_date = delivery_date_field w,
      days_to_deliver = days_to_deliver_field w,
      arrival_kind = read_date arrival_parsed (arrival_format w),
      delivery_kind = read_date delivery_parsed (delivery_format w)\<rparr>"

definition read_csv :: "csv_row list \<Rightarrow> container_record list" where
  "read_csv rows =
     map (read_csv_row (one_format (arrival_formats rows)) (one_format (delivery_formats rows)))
       rows"

text \<open>
  The state: the table of the session and the file, \<open>None\<close> when
  \<^verbatim>\<open>container_data.csv\<close> does not exist.
\<close>

record app_state =
  data :: "container_record list"
  csv_file :: "csv_row list option"

text \<open>Lines 8-15: a new session starts with the empty table.\<close>

definition new_session :: "csv_row list option \<Rightarrow> app_state" where
  "new_session f = \<lparr>data = [], csv_file = f\<rparr>"

text \<open>\<^verbatim>\<open>save_data\<close> (lines 24-25) and \<^verbatim>\<open>load_data\<close> (lines 28-30).\<close>

definition save_data :: "app_state \<Rightarrow> app_state" where
  "save_data s = s\<lparr>csv_file := Some (to_csv (data s))\<rparr>"

definition load_data :: "app_state \<Rightarrow> app_state" where
  "load_data s = (case csv_file s of None \<Rightarrow> s | Some rows \<Rightarrow> s\<lparr>data := read_csv rows\<rparr>)"

subsection \<open>Statistics Engine\<close>

text \<open>
  \<^verbatim>\<open>groupby('customer_name')['days_to_deliver']\<close>: the group keys are the distinct
  names that are not missing, in sorted order; the group of a key holds the
  \<open>days_to_deliver\<close> cells of its rows. \<^verbatim>\<open>mean\<close> skips missing cells and is NaN
  (\<open>None\<close>) when nothing is left; \<^verbatim>\<open>count\<close> is the number of cells that are not
  missing. Means are exact rationals: a mean of \<open>n\<close> whole days that is not 3 differs
  from 3 by at least \<open>1/n\<close>, far more than the rounding of a double, so the comparison
  with the threshold is the same.
\<close>

definition notna :: "'a option list \<Rightarrow> 'a list" where
  "notna cells = map the (filter (\<lambda>c. c \<noteq> None) cells)"

definition group_keys :: "container_record list \<Rightarrow> string list" where
  "group_keys df = sort (remdups (notna (map customer_name df)))"

definition group_values :: "container_record list \<Rightarrow> string \<Rightarrow> int option list" where
  "group_values df k = map days_to_deliver (filter (\<lambda>r. customer_name r = Some k) df)"

definition mean_agg :: "int option list \<Rightarrow> rat option" where
  "mean_agg cells =
     (let vs = notna cells
      in if vs = [] then None else Some (of_int (sum_list vs) / of_nat (length vs)))"

definition count_agg :: "int option list \<Rightarrow> nat" where
  "count_agg cells = length (notna cells)"

record stats_row =
  stats_customer_name :: string
  avg_delivery_days :: "rat option"
  record_count :: nat

text \<open>
  \<^verbatim>\<open>sort_values('avg_delivery_days')\<close>: ascending, rows with a NaN mean last. pandas
  sorts with an unstable algorithm by default, so the order among rows of equal mean
  is not fixed by the program; the model sorts by insertion, and nothing below relies
  on the order of ties.
\<close>

definition na_last :: "rat option \<Rightarrow> nat \<times> rat" where
  "na_last x = (case x of None \<Rightarrow> (1, 0) | Some q \<Rightarrow> (0, q))"

definition sort_values :: "stats_row list \<Rightarrow> stats_row list" where
  "sort_values rows = sort_key (\<lambda>row. na_last (avg_delivery_days row)) rows"

text \<open>Lines 83-86.\<close>

definition customer_stats :: "container_record list \<Rightarrow> stats_row list" where
  "customer_stats df =
     sort_values
       (map (\<lambda>k. \<lparr>stats_customer_name = k,
                  avg_delivery_days = mean_agg (group_values df k),
                  record_count = count_agg (group_values df k)\<rparr>)
            (group_keys df))"

subsection \<open>Placement Classifier\<close>

text \<open>
  Lines 125-126: the containers not yet delivered at the time \<open>now\<close>. The comparison of
  the column with the Timestamp \<open>now\<close> is false on a missing cell and compares a
  Timestamp; on a \<^verbatim>\<open>datetime.date\<close> or on characters it raises \<^verbatim>\<open>TypeError\<close>, and then
  the whole expression does. \<open>is_current\<close> is the mask of a row that can be compared.
\<close>

definition comparable :: "container_record \<Rightarrow> bool" where
  "comparable r = (delivery_date r = None \<or> delivery_kind r = Timestamp)"

definition is_current :: "datetime \<Rightarrow> container_record \<Rightarrow> bool" where
  "is_current now r =
     (case delivery_date r of None \<Rightarrow> True | Some d \<Rightarrow> datetime_less now (midnight d))"

definition current_containers ::
  "datetime \<Rightarrow> container_record list \<Rightarrow> error + container_record list" where
  "current_containers now df =
     (if list_all comparable df then Inr (filter (is_current now) df) else Inl TypeError)"

text \<open>Line 132: the mean per customer, over the whole table.\<close>

definition customer_means :: "container_record list \<Rightarrow> (string \<times> rat option) list" where
  "customer_means df = map (\<lambda>k. (k, mean_agg (group_values df k))) (group_keys df)"

text \<open>
  Lines 133-134: the left merge on \<open>customer_name\<close> keeps the rows of the left table in
  their order; a row whose name is missing or has no group gets a NaN mean.
\<close>

record placement_row =
  container :: container_record
  customer_avg_delivery :: "rat option"
  placement :: string

definition lookup_mean :: "(string \<times> rat option) list \<Rightarrow> string option \<Rightarrow> rat option" where
  "lookup_mean stats name =
     (case name of
        None \<Rightarrow> None
      | Some k \<Rightarrow> (case map_of stats k of None \<Rightarrow> None | Some m \<Rightarrow> m))"

text \<open>Lines 137-139: a comparison with NaN is false.\<close>

definition float_le :: "rat option \<Rightarrow> rat \<Rightarrow> bool" where
  "float_le x c = (case x of None \<Rightarrow> False | Some v \<Rightarrow> v \<le> c)"

definition lower_level :: string where
  "lower_level = ''Lower Level (Easy Access)''"

definition upper_level :: string where
  "upper_level = ''Upper Level (Long-term Storage)''"

definition placement_of :: "rat option \<Rightarrow> string" where
  "placement_of x = (if float_le x 3 then lower_level else upper_level)"

text \<open>Lines 132-139, for the table \<open>df\<close> and its current containers.\<close>

definition classify :: "container_record list \<Rightarrow> container_record list \<Rightarrow> placement_row list" where
  "classify df current =
     (let stats = customer_means df
      in map (\<lambda>r. let avg = lookup_mean stats (customer_name r)
                  in \<lparr>container = r, customer_avg_delivery = avg, placement = placement_of avg\<rparr>)
             current)"

text \<open>Lines 125-139: the output of the classifier, or the exception of its filter.\<close>

definition placement_rows ::
  "datetime \<Rightarrow> container_record list \<Rightarrow> error + placement_row list" where
  "placement_rows now df =
     (case current_containers now df of
        Inl e \<Rightarrow> Inl e
      | Inr current \<Rightarrow> Inr (classify df current))"

subsection \<open>Pages\<close>

text \<open>
  What a page renders (charts, headers and layout left out). An exception that escapes
  the script ends the run, and Streamlit shows it in place of the rest of the page:
  \<open>St_exception\<close> is then the last widget.
\<close>

datatype widget =
    St_error string
  | St_success string
  | St_warning string
  | St_info string
  | St_dataframe "container_record list"
  | St_stats "stats_row list"
  | St_placements "placement_row list"
  | St_metric string nat
  | St_download_button "csv_row list"
  | St_exception error

text \<open>
  \<^verbatim>\<open>st.dataframe\<close> converts the table to Arrow. The conversion fails on a date column
  that holds a \<^verbatim>\<open>datetime.date\<close> next to a cell of another kind, which is the column
  that line 69 builds when it appends the record of the form to a table read from the
  file.
\<close>

definition mixed_dates :: "date_kind list \<Rightarrow> bool" where
  "mixed_dates kinds = (Py_date \<in> set kinds \<and> list_ex (\<lambda>k. k \<noteq> Py_date) kinds)"

definition arrow_compatible :: "container_record list \<Rightarrow> bool" where
  "arrow_compatible rows =
     (\<not> mixed_dates (arrival_kinds rows) \<and> \<not> mixed_dates (delivery_kinds rows))"

definition st_dataframe :: "container_record list \<Rightarrow> widget" where
  "st_dataframe rows =
     (if arrow_compatible rows then St_dataframe rows else St_exception ArrowException)"

definition tail :: "'a list \<Rightarrow> 'a list" where
  "tail xs = drop (length xs - 5) xs"

text \<open>
  Lines 45-74. \<open>clicked\<close> is the value of the "Add Record" button; the two texts and
  the two dates are what the input widgets return.
\<close>

definition add_new_record ::
  "bool \<Rightarrow> string \<Rightarrow> string \<Rightarrow> date \<Rightarrow> date \<Rightarrow> app_state \<Rightarrow> app_state \<times> widget list" where
  "add_new_record clicked name cid arrival delivery s =
     (if clicked then
        if name = [] \<or> cid = [] then (s, [St_error ''Please fill in all fields''])
        else
          let days = delivery - arrival;
              new_record = \<lparr>customer_name = Some name, container_id = Some cid,
                            arrival_date = arrival, delivery_date = Some delivery,
                            days_to_deliver = Some days,
                            arrival_kind = Py_date, delivery_kind = Py_date\<rparr>;
              s1 = s\<lparr>data := data s @ [new_record]\<rparr>;
              s2 = save_data s1
          in (s2, [St_success ''Record added successfully!'', st_dataframe (tail (data s2))])
      else (s, []))"

text \<open>Lines 76-116. \<open>selected\<close> is the customer chosen in the select box.\<close>

definition view_customer_stats :: "string option \<Rightarrow> app_state \<Rightarrow> app_state \<times> widget list" where
  "view_customer_stats selected s =
     (if data s = [] then (s, [St_warning ''No data available. Please add records first.''])
      else
        let stats = customer_stats (data s);
            customer_data = filter (\<lambda>r. selected \<noteq> None \<and> customer_name r = selected) (data s)
        in (s, [St_stats stats, st_dataframe customer_data]))"

text \<open>Lines 118-156.\<close>

definition placement_suggestions :: "datetime \<Rightarrow> app_state \<Rightarrow> app_state \<times> widget list" where
  "placement_suggestions now s =
     (if data s = [] then (s, [St_warning ''No data available. Please add records first.''])
      else
        case current_containers now (data s) of
          Inl e \<Rightarrow> (s, [St_exception e])
        | Inr current \<Rightarrow>
            if current = [] then (s, [St_info ''No active containers in the yard currently.''])
            else
              let rows = classify (data s) current;
                  lower = length (filter (\<lambda>row. placement row = lower_level) rows);
                  upper = length (filter (\<lambda>row. placement row = upper_level) rows)
              in (s, [St_placements rows,
                      St_metric ''Containers for Lower Level'' lower,
                      St_metric ''Containers for Upper Level'' upper]))"

text \<open>
  Lines 158-181. \<open>clear\<close> and \<open>confirm\<close> are the values of the "Clear All Data" and
  "Confirm Delete" buttons.
\<close>

definition data_management :: "bool \<Rightarrow> bool \<Rightarrow> app_state \<Rightarrow> app_state \<times> widget list" where
  "data_management clear confirm s =
     (if data s \<noteq> [] then
        if arrow_compatible (data s) then
          let shown = [St_dataframe (data s), St_download_button (to_csv (data s))]
          in if clear then
               if confirm then
                 (save_data (s\<lparr>data := []\<rparr>),
                  shown @ [St_warning ''This will permanently delete all data. Are you sure?'',
                           St_success ''All data has been cleared.''])
               else
                 (s, shown @ [St_warning ''This will permanently delete all data. Are you sure?''])
             else (s, shown)
        else (s, [St_exception ArrowException])
      else (s, [St_info ''No data available to manage.'']))"

text \<open>A run of the script: line 33 reloads the table, line 43 selects the page.\<close>

datatype menu =
    Add_New_Record bool string string date date
  | View_Customer_Stats "string option"
  | Container_Placement_Suggestions datetime
  | Data_Management bool bool

fun page :: "menu \<Rightarrow> app_state \<Rightarrow> app_state \<times> widget list" where
  "page (Add_New_Record clicked name cid arrival delivery) s =
     add_new_record clicked name cid arrival delivery s"
| "page (View_Customer_Stats selected) s = view_customer_stats selected s"
| "page (Container_Placement_Suggestions now) s = placement_suggestions now s"
| "page (Data_Management clear confirm) s = data_management clear confirm s"

definition run_script :: "menu \<Rightarrow> app_state \<Rightarrow> app_state \<times> widget list" where
  "run_script m s = page m (load_data s)"

text \<open>
  The states the program reaches from a new session, by any sequence of runs; \<open>f\<close> is
  the file found at the start (\<open>None\<close> when there is none).
\<close>

inductive reachable :: "csv_row list option \<Rightarrow> app_state \<Rightarrow> bool" for f where
  start: "reachable f (new_session f)"
| run: "reachable f s \<Longrightarrow> reachable f (fst (run_script m s))"

subsection \<open>The invariant of the record\<close>

text \<open>
  A record is consistent when its \<open>days_to_deliver\<close> is what \<open>calculate_days\<close> gives for
  its two dates; a state is consistent when the rows of its table and the rows read
  from its file are.
\<close>

definition days_consistent :: "container_record \<Rightarrow> bool" where
  "days_consistent r = (days_to_deliver r = calculate_days (arrival_date r) (delivery_date r))"

definition store_consistent :: "app_state \<Rightarrow> bool" where
  "store_consistent s =
     (list_all days_consistent (data s)
      \<and> (case csv_file s of
            None \<Rightarrow> True
          | Some rows \<Rightarrow> list_all days_consistent (read_csv rows)))"

subsection \<open>Scenarios\<close>

text \<open>
  The records and the time used to run the program on concrete inputs, as
  \<^verbatim>\<open>read_csv\<close> gives them: customer Acme with one delivery of 2 days, customer Bolt with
  deliveries of 4 and 6 days (the second one still in the yard on 2024-01-10), customer
  Yard with a container that has no delivery date yet.
\<close>

definition acme_c1 :: container_record where
  "acme_c1 = \<lparr>customer_name = Some ''Acme'', container_id = Some ''C1'',
              arrival_date = ymd2ord 2024 1 1, delivery_date = Some (ymd2ord 2024 1 3),
              days_to_deliver = Some 2,
              arrival_kind = Timestamp, delivery_kind = Timestamp\<rparr>"

definition bolt_b1 :: container_record where
  "bolt_b1 = \<lparr>customer_name = Some ''Bolt'', container_id = Some ''B1'',
              arrival_date = ymd2ord 2024 1 1, delivery_date = Some (ymd2ord 2024 1 5),
              days_to_deliver = Some 4,
              arrival_kind = Timestamp, delivery_kind = Timestamp\<rparr>"

definition bolt_b2 :: container_record where
  "bolt_b2 = \<lparr>customer_name = Some ''Bolt'', container_id = Some ''B2'',
              arrival_date = ymd2ord 2024 1 8, delivery_date = Some (ymd2ord 2024 1 14),
              days_to_deliver = Some 6,
              arrival_kind = Timestamp, delivery_kind = Timestamp\<rparr>"

definition yard_y1 :: container_record where
  "yard_y1 = \<lparr>customer_name = Some ''Yard'', container_id = Some ''Y1'',
              arrival_date = ymd2ord 2024 1 2, delivery_date = None,
              days_to_deliver = None,
              arrival_kind = Timestamp, delivery_kind = Timestamp\<rparr>"

text \<open>The record of Acme as the form creates it (line 61), before any reload.\<close>

definition acme_c1_new :: container_record where
  "acme_c1_new = acme_c1\<lparr>arrival_kind := Py_date, delivery_kind := Py_date\<rparr>"

definition jan_10_morning :: datetime where
  "jan_10_morning = \<lparr>day_of = ymd2ord 2024 1 10, micros_of = 34200000000\<rparr>"

text \<open>Noon of 2024-01-02, when the container of Acme is still in the yard.\<close>

definition jan_02_noon :: datetime where
  "jan_02_noon = \<lparr>day_of = ymd2ord 2024 1 2, micros_of = 43200000000\<rparr>"

section \<open>Properties\<close>

lemmas date_defs = ymd2ord_def days_before_year_def days_before_month_def is_leap_def

lemmas scenario_defs = acme_c1_def acme_c1_new_def bolt_b1_def bolt_b2_def yard_y1_def
  jan_10_morning_def jan_02_noon_def date_defs

lemmas csv_defs = to_csv_def read_csv_def to_csv_row_def read_csv_row_def write_text_def
  read_text_def default_na_values_def datetime64_def arrival_kinds_def delivery_kinds_def
  one_format_def arrival_formats_def delivery_formats_def read_date_def

lemmas stats_defs = customer_stats_def sort_values_def na_last_def group_keys_def
  group_values_def notna_def mean_agg_def count_agg_def

lemmas placement_defs = placement_rows_def classify_def current_containers_def comparable_def
  is_current_def datetime_less_def midnight_def customer_means_def lookup_mean_def
  placement_of_def float_le_def lower_level_def upper_level_def group_keys_def
  group_values_def notna_def mean_agg_def

lemmas page_defs = run_script_def new_session_def load_data_def save_data_def
  add_new_record_def view_customer_stats_def placement_suggestions_def data_management_def
  st_dataframe_def arrow_compatible_def mixed_dates_def tail_def

subsection \<open>Times and the filter of the classifier\<close>

lemma datetime_less_midnight: "datetime_less now (midnight d) \<longleftrightarrow> day_of now < d"
  by (simp add: datetime_less_def midnight_def)

lemma is_current_iff:
  "is_current now r \<longleftrightarrow> (case delivery_date r of None \<Rightarrow> True | Some d \<Rightarrow> day_of now < d)"
  by (simp add: is_current_def datetime_less_midnight split: option.split)

text \<open>
  When every delivery date that is present is a Timestamp, the filter of the classifier
  keeps exactly the records without a delivery date or with a delivery day strictly
  after the current day; otherwise it raises.
\<close>

lemma current_containers_parsed:
  assumes "list_all comparable df"
  shows "current_containers now df =
           Inr (filter (\<lambda>r. case delivery_date r of None \<Rightarrow> True | Some d \<Rightarrow> day_of now < d) df)"
proof -
  have "filter (is_current now) df =
          filter (\<lambda>r. case delivery_date r of None \<Rightarrow> True | Some d \<Rightarrow> day_of now < d) df"
    by (rule filter_cong) (simp_all add: is_current_iff)
  with assms show ?thesis
    by (simp add: current_containers_def)
qed

lemma current_containers_raises:
  "\<not> list_all comparable df \<Longrightarrow> current_containers now df = Inl TypeError"
  by (simp add: current_containers_def)

lemma current_containers_Inr:
  assumes "current_containers now df = Inr current"
  shows "list_all comparable df \<and> current = filter (is_current now) df"
  using assms by (auto simp: current_containers_def split: if_splits)

subsection \<open>Groups and means\<close>

lemma set_notna: "set (notna cells) = {v. Some v \<in> set cells}"
  by (force simp: notna_def image_iff)

lemma set_group_keys: "set (group_keys df) = {k. \<exists>r \<in> set df. customer_name r = Some k}"
proof -
  have "set (group_keys df) = {k. Some k \<in> customer_name ` set df}"
    by (simp add: group_keys_def set_notna)
  also have "\<dots> = {k. \<exists>r \<in> set df. customer_name r = Some k}"
    by (auto simp: image_iff) metis
  finally show ?thesis .
qed

lemma distinct_group_keys: "distinct (group_keys df)"
  by (simp add: group_keys_def)

lemma notna_group_values:
  "notna (group_values df k) =
     map (\<lambda>r. the (days_to_deliver r))
       (filter (\<lambda>r. customer_name r = Some k \<and> days_to_deliver r \<noteq> None) df)"
  by (induction df) (auto simp: notna_def group_values_def)

lemma mean_agg_eq:
  "mean_agg cells =
     (if notna cells = [] then None
      else Some (of_int (sum_list (notna cells)) / of_nat (length (notna cells))))"
  by (simp add: mean_agg_def Let_def)

lemma mean_agg_all_absent:
  assumes "\<forall>r \<in> set df. customer_name r = Some k \<longrightarrow> days_to_deliver r = None"
  shows "mean_agg (group_values df k) = None"
proof -
  have "filter (\<lambda>r. customer_name r = Some k \<and> days_to_deliver r \<noteq> None) df = []"
    using assms by (auto simp: filter_empty_conv)
  then show ?thesis
    by (simp add: mean_agg_eq notna_group_values)
qed

lemma map_of_customer_means:
  "map_of (customer_means df) k =
     (if k \<in> set (group_keys df) then Some (mean_agg (group_values df k)) else None)"
  unfolding customer_means_def
  by (induction "group_keys df") (auto simp: map_of_map_restrict restrict_map_def)

lemma lookup_mean_customer_means:
  assumes "r \<in> set df" and "customer_name r = Some k"
  shows "lookup_mean (customer_means df) (customer_name r) = mean_agg (group_values df k)"
proof -
  from assms have "k \<in> set (group_keys df)"
    unfolding set_group_keys by blast
  then show ?thesis
    using assms(2) by (simp add: lookup_mean_def map_of_customer_means)
qed

lemma placement_rows_Inr:
  assumes "placement_rows now df = Inr rows"
  shows "rows = classify df (filter (is_current now) df)"
  using assms current_containers_Inr[of now df]
  by (auto simp: placement_rows_def split: sum.splits)

lemma placement_rows_member:
  assumes "placement_rows now df = Inr rows" and "row \<in> set rows"
  shows "container row \<in> set df \<and> is_current now (container row)
       \<and> customer_avg_delivery row
           = lookup_mean (customer_means df) (customer_name (container row))
       \<and> placement row = placement_of (customer_avg_delivery row)"
  using assms(2) unfolding placement_rows_Inr[OF assms(1)]
  by (auto simp: classify_def Let_def)

text \<open>
  Whenever the classifier returns, its output has one row for each record of the table
  without a delivery date or with a delivery day strictly after the current day, in the
  order of the table, and no row for a record delivered today or earlier.
\<close>

lemma placement_rows_not_delivered:
  assumes "placement_rows now df = Inr rows"
  shows "map container rows
           = filter (\<lambda>r. case delivery_date r of None \<Rightarrow> True | Some d \<Rightarrow> day_of now < d) df
       \<and> (\<forall>row \<in> set rows. \<forall>d. delivery_date (container row) = Some d \<longrightarrow> day_of now < d)"
proof
  have "filter (is_current now) df =
          filter (\<lambda>r. case delivery_date r of None \<Rightarrow> True | Some d \<Rightarrow> day_of now < d) df"
    by (rule filter_cong) (simp_all add: is_current_iff)
  then show "map container rows
           = filter (\<lambda>r. case delivery_date r of None \<Rightarrow> True | Some d \<Rightarrow> day_of now < d) df"
    unfolding placement_rows_Inr[OF assms] by (simp add: classify_def Let_def comp_def)
  show "\<forall>row \<in> set rows. \<forall>d. delivery_date (container row) = Some d \<longrightarrow> day_of now < d"
    using placement_rows_member[OF assms] by (fastforce simp: is_current_iff)
qed

subsection \<open>The statistics table\<close>

lemma set_customer_stats:
  "set (customer_stats df) =
     (\<lambda>k. \<lparr>stats_customer_name = k,
            avg_delivery_days = mean_agg (group_values df k),
            record_count = count_agg (group_values df k)\<rparr>) ` set (group_keys df)"
  by (simp add: customer_stats_def sort_values_def)

text \<open>One row per distinct customer name that is present in the table.\<close>

lemma customer_stats_names:
  "distinct (map stats_customer_name (customer_stats df))
   \<and> set (map stats_customer_name (customer_stats df))
       = {k. \<exists>r \<in> set df. customer_name r = Some k}"
proof -
  let ?mk = "\<lambda>k. \<lparr>stats_customer_name = k,
            avg_delivery_days = mean_agg (group_values df k),
            record_count = count_agg (group_values df k)\<rparr>"
  have "map stats_customer_name (map ?mk (group_keys df)) = group_keys df"
    by (simp add: comp_def)
  then have d: "distinct (map stats_customer_name (map ?mk (group_keys df)))"
    by (simp add: distinct_group_keys)
  have "distinct (map stats_customer_name (sort_values (map ?mk (group_keys df))))"
    unfolding sort_values_def using d by (simp add: distinct_map inj_on_def)
  moreover have "set (map stats_customer_name (customer_stats df)) = set (group_keys df)"
    by (simp add: set_customer_stats image_image)
  ultimately show ?thesis
    by (simp add: customer_stats_def set_group_keys)
qed

text \<open>
  Each row carries the mean of the days that are present for its customer, and the
  number of those days.
\<close>

lemma customer_stats_row:
  assumes "row \<in> set (customer_stats df)"
  shows "avg_delivery_days row = mean_agg (group_values df (stats_customer_name row))
       \<and> record_count row = count_agg (group_values df (stats_customer_name row))"
  using assms by (auto simp: set_customer_stats)

lemma record_count_eq:
  assumes "row \<in> set (customer_stats df)"
  shows "record_count row =
           length (filter (\<lambda>r. customer_name r = Some (stats_customer_name row)
                               \<and> days_to_deliver r \<noteq> None) df)"
  using customer_stats_row[OF assms] by (simp add: count_agg_def notna_group_values)

text \<open>When every record has its \<open>days_to_deliver\<close>, that number is the number of records.\<close>

lemma record_count_all_present:
  assumes "row \<in> set (customer_stats df)"
    and "\<forall>r \<in> set df. days_to_deliver r \<noteq> None"
  shows "record_count row
           = length (filter (\<lambda>r. customer_name r = Some (stats_customer_name row)) df)"
proof -
  have "filter (\<lambda>r. customer_name r = Some (stats_customer_name row)
                     \<and> days_to_deliver r \<noteq> None) df
        = filter (\<lambda>r. customer_name r = Some (stats_customer_name row)) df"
    using assms(2) by (intro filter_cong) auto
  then show ?thesis
    using record_count_eq[OF assms(1)] by simp
qed

text \<open>The rows are in ascending order of the mean, rows without a mean last.\<close>

lemma na_last_le:
  "na_last x \<le> na_last y \<longleftrightarrow>
     (case y of None \<Rightarrow> True | Some b \<Rightarrow> (case x of None \<Rightarrow> False | Some a \<Rightarrow> a \<le> b))"
  by (auto simp: na_last_def split: option.splits)

lemma customer_stats_sorted:
  "sorted (map (\<lambda>row. na_last (avg_delivery_days row)) (customer_stats df))"
  by (simp add: customer_stats_def sort_values_def)

lemma customer_stats_ascending:
  "sorted_wrt
     (\<lambda>a b. case avg_delivery_days b of
                None \<Rightarrow> True
              | Some y \<Rightarrow> (case avg_delivery_days a of None \<Rightarrow> False | Some x \<Rightarrow> x \<le> y))
     (customer_stats df)"
  using customer_stats_sorted[of df] by (simp add: sorted_map na_last_le)

subsection \<open>Consistency of the store\<close>

lemma days_consistent_read_to:
  "days_consistent (read_csv_row p q (to_csv_row a b r)) = days_consistent r"
  by (simp add: days_consistent_def read_csv_row_def to_csv_row_def)

lemma list_all_read_to_csv:
  "list_all days_consistent (read_csv (to_csv df)) = list_all days_consistent df"
  by (simp add: read_csv_def to_csv_def list_all_iff days_consistent_read_to)

lemma store_consistent_load: "store_consistent s \<Longrightarrow> store_consistent (load_data s)"
  by (auto simp: store_consistent_def load_data_def split: option.splits)

lemma store_consistent_save:
  "list_all days_consistent (data s) \<Longrightarrow> store_consistent (save_data s)"
  by (simp add: store_consistent_def save_data_def list_all_read_to_csv)

lemma store_consistent_add:
  assumes "store_consistent s"
  shows "store_consistent (fst (add_new_record clicked name cid arrival delivery s))"
proof (cases "clicked \<and> name \<noteq> [] \<and> cid \<noteq> []")
  case True
  let ?new = "\<lparr>customer_name = Some name, container_id = Some cid,
                arrival_date = arrival, delivery_date = Some delivery,
                days_to_deliver = Some (delivery - arrival),
                arrival_kind = Py_date, delivery_kind = Py_date\<rparr>"
  have "days_consistent ?new"
    by (simp add: days_consistent_def calculate_days_def)
  with assms have "list_all days_consistent (data (s\<lparr>data := data s @ [?new]\<rparr>))"
    by (simp add: store_consistent_def)
  from store_consistent_save[OF this] True show ?thesis
    by (simp add: add_new_record_def Let_def)
next
  case False
  with assms show ?thesis
    by (auto simp: add_new_record_def)
qed

lemma store_consistent_clear:
  assumes "store_consistent s"
  shows "store_consistent (fst (data_management clear confirm s))"
proof (cases "data s \<noteq> [] \<and> arrow_compatible (data s) \<and> clear \<and> confirm")
  case True
  have "store_consistent (save_data (s\<lparr>data := []\<rparr>))"
    by (rule store_consistent_save) simp
  with True show ?thesis
    by (simp add: data_management_def Let_def)
next
  case False
  with assms show ?thesis
    by (auto simp: data_management_def Let_def)
qed

lemma view_customer_stats_state: "fst (view_customer_stats selected s) = s"
  by (simp add: view_customer_stats_def Let_def)

lemma placement_suggestions_state: "fst (placement_suggestions now s) = s"
  by (simp add: placement_suggestions_def Let_def split: sum.split)

lemma store_consistent_page: "store_consistent s \<Longrightarrow> store_consistent (fst (page m s))"
  by (cases m)
    (simp_all add: store_consistent_add store_consistent_clear
      view_customer_stats_state placement_suggestions_state)

lemma store_consistent_run: "store_consistent s \<Longrightarrow> store_consistent (fst (run_script m s))"
  unfolding run_script_def by (intro store_consistent_page store_consistent_load)

lemma reachable_consistent:
  assumes "reachable f s" and "store_consistent (new_session f)"
  shows "store_consistent s"
  using assms by (induction rule: reachable.induct) (simp_all add: store_consistent_run)

subsection \<open>Placement Classifier\<close>

text \<open>
  Claim C1. Take any row that the Placement Classifier outputs for a record of customer
  \<open>k\<close>, and let \<open>days\<close> be the \<open>days_to_deliver\<close> values present among all records of
  \<open>k\<close> in the table (delivered ones included). When there is at least one, the placement
  is "Lower Level (Easy Access)" if their arithmetic mean is at most 3 and
  "Upper Level (Long-term Storage)" otherwise; in particular a mean of 5 gives the
  upper level. The witness is the scenario of customer Bolt, with deliveries of 4 and 6
  days.
\<close>

theorem placement_threshold_rule:
  assumes "placement_rows now df = Inr rows" and "row \<in> set rows"
    and "customer_name (container row) = Some k"
    and "days = map (\<lambda>r. the (days_to_deliver r))
                  (filter (\<lambda>r. customer_name r = Some k \<and> days_to_deliver r \<noteq> None) df)"
    and "days \<noteq> []"
  shows "placement row =
           (if of_int (sum_list days) / of_nat (length days) \<le> (3::rat)
            then ''Lower Level (Easy Access)'' else ''Upper Level (Long-term Storage)'')
       \<and> (of_int (sum_list days) / of_nat (length days) = (5::rat)
            \<longrightarrow> placement row = ''Upper Level (Long-term Storage)'')"
proof -
  from placement_rows_member[OF assms(1,2)]
  have mem: "container row \<in> set df"
    and avg: "customer_avg_delivery row
                = lookup_mean (customer_means df) (customer_name (container row))"
    and pl: "placement row = placement_of (customer_avg_delivery row)"
    by simp_all
  have "customer_avg_delivery row = mean_agg (group_values df k)"
    using avg lookup_mean_customer_means[OF mem assms(3)] by simp
  also have "\<dots> = Some (of_int (sum_list days) / of_nat (length days))"
    using assms(4,5) by (simp add: mean_agg_eq notna_group_values)
  finally have "customer_avg_delivery row = Some (of_int (sum_list days) / of_nat (length days))" .
  with pl show ?thesis
    by (simp add: placement_of_def float_le_def lower_level_def upper_level_def)
qed

theorem placement_threshold_rule_witness:
  "placement_rows jan_10_morning [acme_c1, bolt_b1, bolt_b2, yard_y1]
     = Inr [\<lparr>container = bolt_b2, customer_avg_delivery = Some 5,
               placement = ''Upper Level (Long-term Storage)''\<rparr>,
            \<lparr>container = yard_y1, customer_avg_delivery = None,
               placement = ''Upper Level (Long-term Storage)''\<rparr>]
   \<and> customer_name bolt_b2 = Some ''Bolt''
   \<and> [4, 6] = map (\<lambda>r. the (days_to_deliver r))
                (filter (\<lambda>r. customer_name r = Some ''Bolt'' \<and> days_to_deliver r \<noteq> None)
                   [acme_c1, bolt_b1, bolt_b2, yard_y1])
   \<and> of_int (sum_list [4, 6]) / of_nat (length [4, 6 :: int]) = (5::rat)
   \<and> placement \<lparr>container = bolt_b2, customer_avg_delivery = Some 5,
         placement = ''Upper Level (Long-term Storage)''\<rparr> = ''Upper Level (Long-term Storage)''"
proof -
  let ?row = "\<lparr>container = bolt_b2, customer_avg_delivery = Some 5,
     placement = ''Upper Level (Long-term Storage)''\<rparr>"
  let ?rows = "[?row, \<lparr>container = yard_y1, customer_avg_delivery = None,
               placement = ''Upper Level (Long-term Storage)''\<rparr>]"
  let ?df = "[acme_c1, bolt_b1, bolt_b2, yard_y1]"
  have h1: "placement_rows jan_10_morning ?df = Inr ?rows"
    by (simp add: placement_defs scenario_defs Let_def)
  have h1': "?row \<in> set ?rows"
    by simp
  have h2: "customer_name (container ?row) = Some ''Bolt''"
    by (simp add: bolt_b2_def)
  have h3: "[4, 6] = map (\<lambda>r. the (days_to_deliver r))
                (filter (\<lambda>r. customer_name r = Some ''Bolt'' \<and> days_to_deliver r \<noteq> None) ?df)"
    by (simp add: scenario_defs)
  have h4: "[4, 6 :: int] \<noteq> []"
    by simp
  have h5: "of_int (sum_list [4, 6]) / of_nat (length [4, 6 :: int]) = (5::rat)"
    by simp
  from placement_threshold_rule[OF h1 h1' h2 h3 h4] h1 h2 h3 h5 show ?thesis
    by simp
qed

text \<open>
  Claim C2. The classifier is to work on exactly the records whose delivery date is
  missing or in the future. It does so while the delivery dates of the table are
  Timestamps (\<open>current_containers_parsed\<close>, \<open>placement_rows_not_delivered\<close> above), but
  not on the table that two submissions of the form leave behind. The second submission
  appends \<^verbatim>\<open>datetime.date\<close> cells to the Timestamps read from the file, \<open>save_data\<close> writes
  the two kinds in two formats, the next run reads both date columns as characters, and
  the comparison of lines 125-126 raises \<^verbatim>\<open>TypeError\<close>: on 2024-01-10 the container of
  Bolt, to be delivered on 2024-01-14, is in the table and the classifier gets no input
  at all.
\<close>

theorem classifier_raises_after_two_submissions:
  "run_script (Container_Placement_Suggestions \<lparr>day_of = 738895, micros_of = 34200000000\<rparr>)
     (fst (run_script (Add_New_Record True ''Bolt'' ''B2'' 738893 738899)
        (fst (run_script (Add_New_Record True ''Acme'' ''C1'' 738886 738888)
           (new_session None)))))
   = (\<lparr>data =
         [\<lparr>customer_name = Some ''Acme'', container_id = Some ''C1'',
            arrival_date = 738886, delivery_date = Some 738888, days_to_deliver = Some 2,
            arrival_kind = Text Date_time, delivery_kind = Text Date_time\<rparr>,
          \<lparr>customer_name = Some ''Bolt'', container_id = Some ''B2'',
            arrival_date = 738893, delivery_date = Some 738899, days_to_deliver = Some 6,
            arrival_kind = Text Date_only, delivery_kind = Text Date_only\<rparr>],
       csv_file =
         Some [\<lparr>customer_name_field = ''Acme'', container_id_field = ''C1'',
                 arrival_date_field = 738886, delivery_date_field = Some 738888,
                 days_to_deliver_field = Some 2,
                 arrival_format = Date_time, delivery_format = Date_time\<rparr>,
               \<lparr>customer_name_field = ''Bolt'', container_id_field = ''B2'',
                 arrival_date_field = 738893, delivery_date_field = Some 738899,
                 days_to_deliver_field = Some 6,
                 arrival_format = Date_only, delivery_format = Date_only\<rparr>]\<rparr>,
      [St_exception TypeError])"
  by (simp add: page_defs csv_defs current_containers_def comparable_def Let_def)

text \<open>
  Claim C6, as corrected. A record considered by the classifier whose customer has no
  \<open>days_to_deliver\<close> value in any record gets a NaN mean from the merge, the comparison
  with 3 is false, and the placement is "Upper Level (Long-term Storage)". The witness
  is the table read from a file that holds a container of Yard without a delivery date.
\<close>

theorem placement_undefined_mean_upper:
  assumes "placement_rows now df = Inr rows" and "row \<in> set rows"
    and "customer_name (container row) = Some k"
    and "\<forall>r \<in> set df. customer_name r = Some k \<longrightarrow> days_to_deliver r = None"
  shows "customer_avg_delivery row = None \<and> placement row = ''Upper Level (Long-term Storage)''"
proof -
  from placement_rows_member[OF assms(1,2)]
  have mem: "container row \<in> set df"
    and avg: "customer_avg_delivery row
                = lookup_mean (customer_means df) (customer_name (container row))"
    and pl: "placement row = placement_of (customer_avg_delivery row)"
    by simp_all
  have "customer_avg_delivery row = None"
    using avg lookup_mean_customer_means[OF mem assms(3)] mean_agg_all_absent[OF assms(4)]
    by simp
  with pl show ?thesis
    by (simp add: placement_of_def float_le_def upper_level_def)
qed

theorem placement_undefined_mean_upper_witness:
  "placement_rows jan_10_morning [acme_c1, yard_y1]
     = Inr [\<lparr>container = yard_y1, customer_avg_delivery = None,
               placement = ''Upper Level (Long-term Storage)''\<rparr>]
   \<and> customer_name yard_y1 = Some ''Yard''
   \<and> map days_to_deliver (filter (\<lambda>r. customer_name r = Some ''Yard'') [acme_c1, yard_y1])
       = [None]
   \<and> customer_avg_delivery \<lparr>container = yard_y1, customer_avg_delivery = None,
               placement = ''Upper Level (Long-term Storage)''\<rparr> = None
   \<and> placement \<lparr>container = yard_y1, customer_avg_delivery = None,
               placement = ''Upper Level (Long-term Storage)''\<rparr>
       = ''Upper Level (Long-term Storage)''
   \<and> data (load_data (new_session (Some (to_csv [acme_c1, yard_y1])))) = [acme_c1, yard_y1]"
proof -
  let ?df = "[acme_c1, yard_y1]"
  let ?row = "\<lparr>container = yard_y1, customer_avg_delivery = None,
               placement = ''Upper Level (Long-term Storage)''\<rparr>"
  have h1: "placement_rows jan_10_morning ?df = Inr [?row]"
    by (simp add: placement_defs scenario_defs Let_def)
  have h1': "?row \<in> set [?row]"
    by simp
  have h2: "customer_name (container ?row) = Some ''Yard''"
    by (simp add: yard_y1_def)
  have h3: "\<forall>r \<in> set ?df. customer_name r = Some ''Yard'' \<longrightarrow> days_to_deliver r = None"
    by (simp add: scenario_defs)
  have h3': "map days_to_deliver (filter (\<lambda>r. customer_name r = Some ''Yard'') ?df) = [None]"
    by (simp add: scenario_defs)
  have h4: "data (load_data (new_session (Some (to_csv ?df)))) = ?df"
    by (simp add: load_data_def new_session_def csv_defs scenario_defs)
  from placement_undefined_mean_upper[OF h1 h1' h2 h3] h1 h2 h3' h4 show ?thesis
    by simp
qed

text \<open>
  The claim as it was stated, for a customer without a completed delivery, does not hold:
  line 60 gives every record of the form its \<open>days_to_deliver\<close>, delivered or not, and
  line 132 averages them all. Acme's only container arrived on 2024-01-01 and is to be
  delivered on 2024-01-03; at noon of 2024-01-02 nothing of Acme has been delivered, its
  mean is 2, and the container is placed on the lower level.
\<close>

theorem no_completed_delivery_counterexample:
  "run_script (Container_Placement_Suggestions jan_02_noon)
     (fst (run_script (Add_New_Record True ''Acme'' ''C1'' (ymd2ord 2024 1 1) (ymd2ord 2024 1 3))
        (new_session None)))
   = (\<lparr>data = [acme_c1], csv_file = Some (to_csv [acme_c1])\<rparr>,
      [St_placements [\<lparr>container = acme_c1, customer_avg_delivery = Some 2,
                       placement = ''Lower Level (Easy Access)''\<rparr>],
       St_metric ''Containers for Lower Level'' 1,
       St_metric ''Containers for Upper Level'' 0])
   \<and> delivery_date acme_c1 = Some (ymd2ord 2024 1 3)
   \<and> day_of jan_02_noon < ymd2ord 2024 1 3
   \<and> ''Lower Level (Easy Access)'' \<noteq> ''Upper Level (Long-term Storage)''"
  by (simp add: page_defs csv_defs placement_defs scenario_defs Let_def)

subsection \<open>Statistics Engine\<close>

text \<open>
  Claim C3. The statistics table has one row per distinct customer name, with the mean
  of the customer's present \<open>days_to_deliver\<close> values, sorted by that mean
  (\<open>customer_stats_names\<close>, \<open>customer_stats_row\<close>, \<open>customer_stats_sorted\<close> above). Its
  column \<open>record_count\<close>, however, is computed with the aggregation \<^verbatim>\<open>count\<close>, which
  counts the \<open>days_to_deliver\<close> cells that are present (\<open>record_count_eq\<close>), not the
  records: for a table with the single record of customer Yard, whose container has no
  delivery date yet, the row of Yard has \<open>record_count = 0\<close>, while Yard has one record.
\<close>

theorem record_count_skips_absent_days:
  "customer_stats [\<lparr>customer_name = Some ''Yard'', container_id = Some ''Y1'',
                    arrival_date = 738887, delivery_date = None, days_to_deliver = None,
                    arrival_kind = Timestamp, delivery_kind = Timestamp\<rparr>]
     = [\<lparr>stats_customer_name = ''Yard'', avg_delivery_days = None, record_count = 0\<rparr>]
   \<and> length (filter (\<lambda>r. customer_name r = Some ''Yard'')
        [\<lparr>customer_name = Some ''Yard'', container_id = Some ''Y1'',
          arrival_date = 738887, delivery_date = None, days_to_deliver = None,
          arrival_kind = Timestamp, delivery_kind = Timestamp\<rparr>]) = 1"
  by (simp add: stats_defs)

text \<open>
  Claim C7. A customer with at least one record and no \<open>days_to_deliver\<close> value in any of
  them has a row in the statistics table, and the mean of that row is the missing value
  NaN (\<open>None\<close>), the table's marker for no data; it is never the number 0.
\<close>

theorem stats_all_absent_mean_is_nan:
  assumes "r \<in> set df" and "customer_name r = Some k"
    and "\<forall>r \<in> set df. customer_name r = Some k \<longrightarrow> days_to_deliver r = None"
  shows "(\<exists>row \<in> set (customer_stats df). stats_customer_name row = k)
       \<and> (\<forall>row \<in> set (customer_stats df). stats_customer_name row = k \<longrightarrow>
             avg_delivery_days row = None \<and> avg_delivery_days row \<noteq> Some 0)"
proof -
  have "k \<in> set (map stats_customer_name (customer_stats df))"
    using assms(1,2) customer_stats_names[of df] by blast
  then have ex: "\<exists>row \<in> set (customer_stats df). stats_customer_name row = k"
    by auto
  have "\<forall>row \<in> set (customer_stats df). stats_customer_name row = k \<longrightarrow>
             avg_delivery_days row = None \<and> avg_delivery_days row \<noteq> Some 0"
    using customer_stats_row mean_agg_all_absent[OF assms(3)] by simp
  with ex show ?thesis by blast
qed

theorem stats_all_absent_mean_is_nan_witness:
  "yard_y1 \<in> set [acme_c1, yard_y1] \<and> customer_name yard_y1 = Some ''Yard''
   \<and> map days_to_deliver (filter (\<lambda>r. customer_name r = Some ''Yard'') [acme_c1, yard_y1])
       = [None]
   \<and> map stats_customer_name (customer_stats [acme_c1, yard_y1]) = [''Acme'', ''Yard'']
   \<and> avg_delivery_days (customer_stats [acme_c1, yard_y1] ! 1) = None"
proof -
  let ?df = "[acme_c1, yard_y1]"
  have h1: "yard_y1 \<in> set ?df" by simp
  have h2: "customer_name yard_y1 = Some ''Yard''" by (simp add: yard_y1_def)
  have h3: "\<forall>r \<in> set ?df. customer_name r = Some ''Yard'' \<longrightarrow> days_to_deliver r = None"
    by (simp add: scenario_defs)
  have h3': "map days_to_deliver (filter (\<lambda>r. customer_name r = Some ''Yard'') ?df) = [None]"
    by (simp add: scenario_defs)
  have names: "map stats_customer_name (customer_stats ?df) = [''Acme'', ''Yard'']"
    by (simp add: stats_defs scenario_defs)
  then have len: "length (customer_stats ?df) = 2"
    by (metis length_map length_Cons list.size(3) One_nat_def Suc_1)
  then have mem: "customer_stats ?df ! 1 \<in> set (customer_stats ?df)"
    by simp
  have "stats_customer_name (customer_stats ?df ! 1) = [''Acme'', ''Yard''] ! 1"
    using names len by (metis nth_map one_less_numeral_iff semiring_norm(76))
  then have nm: "stats_customer_name (customer_stats ?df ! 1) = ''Yard''"
    by simp
  from stats_all_absent_mean_is_nan[OF h1 h2 h3] mem nm
  have "avg_delivery_days (customer_stats ?df ! 1) = None"
    by blast
  with h1 h2 h3' names show ?thesis
    by simp
qed

subsection \<open>Persistence\<close>

text \<open>
  Claim C5. Saving the table and loading it again does not always give the table back:
  a customer name that is one of the default missing-value markers of \<^verbatim>\<open>read_csv\<close>,
  such as \<open>NA\<close>, is written as these characters and read back as NaN. For the table
  with one record of customer \<open>NA\<close>, as the form creates it, the table after \<open>save_data\<close>
  and \<open>load_data\<close> has the same record with its customer name missing (and its dates
  as Timestamps).
\<close>

theorem reload_loses_na_customer_name:
  "data (load_data (save_data
      \<lparr>data = [\<lparr>customer_name = Some ''NA'', container_id = Some ''C1'',
                 arrival_date = 738886, delivery_date = Some 738888,
                 days_to_deliver = Some 2,
                 arrival_kind = Py_date, delivery_kind = Py_date\<rparr>],
        csv_file = None\<rparr>))
     = [\<lparr>customer_name = None, container_id = Some ''C1'',
          arrival_date = 738886, delivery_date = Some 738888, days_to_deliver = Some 2,
          arrival_kind = Timestamp, delivery_kind = Timestamp\<rparr>]"
  by (simp add: load_data_def save_data_def csv_defs)

text \<open>
  The same through the form: after the record of customer \<open>NA\<close> is added, the next run
  of the script reloads the table, and the statistics page shows no customer at all.
\<close>

lemma na_customer_lost_on_next_run:
  "run_script (View_Customer_Stats None)
     (fst (run_script (Add_New_Record True ''NA'' ''C1'' 738886 738888) (new_session None)))
   = (\<lparr>data = [\<lparr>customer_name = None, container_id = Some ''C1'',
                  arrival_date = 738886, delivery_date = Some 738888,
                  days_to_deliver = Some 2,
                  arrival_kind = Timestamp, delivery_kind = Timestamp\<rparr>],
        csv_file = Some [\<lparr>customer_name_field = ''NA'', container_id_field = ''C1'',
                          arrival_date_field = 738886, delivery_date_field = Some 738888,
                          days_to_deliver_field = Some 2,
                          arrival_format = Date_only, delivery_format = Date_only\<rparr>]\<rparr>,
      [St_stats [], St_dataframe []])"
  by (simp add: page_defs csv_defs stats_defs Let_def)

subsection \<open>Record Store\<close>

text \<open>
  Claim C4. In every state the program reaches from a new session, whose file (if there
  is one) holds rows with \<open>days_to_deliver\<close> equal to the difference of their dates when
  the delivery date is present and missing otherwise, every record of the table has
  \<open>days_to_deliver = delivery_date - arrival_date\<close> in days when its delivery date is
  present, and no \<open>days_to_deliver\<close> when it is missing. The record that a valid form
  submission appends has the two dates of the form and their difference, and
  \<open>calculate_days\<close> computes the same. In the witness the file holds a container still in
  the yard, and the form adds arrival 2024-01-01, delivery 2024-01-03, which gives 2.
\<close>

theorem days_to_deliver_invariant:
  "(reachable f s
      \<and> (\<forall>rows. f = Some rows \<longrightarrow>
            (\<forall>w \<in> set rows. days_to_deliver_field w =
               (case delivery_date_field w of
                  None \<Rightarrow> None
                | Some d \<Rightarrow> Some (d - arrival_date_field w))))
      \<and> r \<in> set (data s)
    \<longrightarrow> (\<forall>d. delivery_date r = Some d \<longrightarrow> days_to_deliver r = Some (d - arrival_date r))
        \<and> (delivery_date r = None \<longrightarrow> days_to_deliver r = None))
   \<and> (name \<noteq> [] \<and> cid \<noteq> [] \<longrightarrow>
        (let new = last (data (fst (add_new_record True name cid arrival delivery s)))
         in arrival_date new = arrival \<and> delivery_date new = Some delivery
            \<and> days_to_deliver new = Some (delivery - arrival)))
   \<and> calculate_days arrival (Some delivery) = Some (delivery - arrival)
   \<and> calculate_days arrival None = None"
proof (intro conjI impI)
  assume a: "reachable f s
      \<and> (\<forall>rows. f = Some rows \<longrightarrow>
            (\<forall>w \<in> set rows. days_to_deliver_field w =
               (case delivery_date_field w of
                  None \<Rightarrow> None
                | Some d \<Rightarrow> Some (d - arrival_date_field w))))
      \<and> r \<in> set (data s)"
  then have "store_consistent (new_session f)"
    by (auto simp: store_consistent_def new_session_def list_all_iff read_csv_def
        days_consistent_def read_csv_row_def calculate_days_def split: option.splits)
  with a have "store_consistent s"
    using reachable_consistent by blast
  with a have c: "days_to_deliver r = calculate_days (arrival_date r) (delivery_date r)"
    by (simp add: store_consistent_def list_all_iff days_consistent_def)
  show "\<forall>d. delivery_date r = Some d \<longrightarrow> days_to_deliver r = Some (d - arrival_date r)"
    using c by (simp add: calculate_days_def)
  show "delivery_date r = None \<Longrightarrow> days_to_deliver r = None"
    using c by (simp add: calculate_days_def)
next
  assume "name \<noteq> [] \<and> cid \<noteq> []"
  then show "let new = last (data (fst (add_new_record True name cid arrival delivery s)))
         in arrival_date new = arrival \<and> delivery_date new = Some delivery
            \<and> days_to_deliver new = Some (delivery - arrival)"
    by (simp add: add_new_record_def save_data_def Let_def)
qed (simp_all add: calculate_days_def)

theorem days_to_deliver_invariant_witness:
  "reachable (Some (to_csv [yard_y1]))
     (fst (run_script (Add_New_Record True ''Acme'' ''C1'' (ymd2ord 2024 1 1) (ymd2ord 2024 1 3))
        (new_session (Some (to_csv [yard_y1])))))
   \<and> data (fst (run_script (Add_New_Record True ''Acme'' ''C1'' (ymd2ord 2024 1 1) (ymd2ord 2024 1 3))
        (new_session (Some (to_csv [yard_y1])))))
      = [yard_y1, acme_c1_new]
   \<and> delivery_date acme_c1_new = Some (ymd2ord 2024 1 3)
   \<and> arrival_date acme_c1_new = ymd2ord 2024 1 1
   \<and> days_to_deliver acme_c1_new = Some (ymd2ord 2024 1 3 - ymd2ord 2024 1 1)
   \<and> ymd2ord 2024 1 3 - ymd2ord 2024 1 1 = 2
   \<and> delivery_date yard_y1 = None \<and> days_to_deliver yard_y1 = None
   \<and> ''Acme'' \<noteq> [] \<and> ''C1'' \<noteq> []
   \<and> days_to_deliver (last (data (fst (add_new_record True ''Acme'' ''C1''
          (ymd2ord 2024 1 1) (ymd2ord 2024 1 3) (new_session None))))) = Some 2"
proof -
  let ?f = "Some (to_csv [yard_y1])"
  let ?m = "Add_New_Record True ''Acme'' ''C1'' (ymd2ord 2024 1 1) (ymd2ord 2024 1 3)"
  let ?s = "fst (run_script ?m (new_session ?f))"
  have h1: "reachable ?f ?s"
    by (rule reachable.run[OF reachable.start])
  have h2: "\<forall>rows. ?f = Some rows \<longrightarrow>
            (\<forall>w \<in> set rows. days_to_deliver_field w =
               (case delivery_date_field w of
                  None \<Rightarrow> None
                | Some d \<Rightarrow> Some (d - arrival_date_field w)))"
    by (simp add: csv_defs yard_y1_def)
  have d: "data ?s = [yard_y1, acme_c1_new]"
    by (simp add: page_defs csv_defs scenario_defs Let_def)
  then have h3: "acme_c1_new \<in> set (data ?s)" and h4: "yard_y1 \<in> set (data ?s)"
    by simp_all
  have dates: "delivery_date acme_c1_new = Some (ymd2ord 2024 1 3)" "delivery_date yard_y1 = None"
    "arrival_date acme_c1_new = ymd2ord 2024 1 1" "ymd2ord 2024 1 3 - ymd2ord 2024 1 1 = 2"
    by (simp_all add: scenario_defs)
  from days_to_deliver_invariant[of ?f ?s acme_c1_new] h1 h2 h3 dates
  have "days_to_deliver acme_c1_new = Some (ymd2ord 2024 1 3 - ymd2ord 2024 1 1)"
    by simp
  moreover from days_to_deliver_invariant[of ?f ?s yard_y1] h1 h2 h4 dates
  have "days_to_deliver yard_y1 = None"
    by blast
  moreover from days_to_deliver_invariant[of None "new_session None" acme_c1 "''Acme''" "''C1''"
      "ymd2ord 2024 1 1" "ymd2ord 2024 1 3"] dates
  have "days_to_deliver (last (data (fst (add_new_record True ''Acme'' ''C1''
          (ymd2ord 2024 1 1) (ymd2ord 2024 1 3) (new_session None))))) = Some 2"
    by (simp add: Let_def)
  ultimately show ?thesis
    using h1 d dates by simp
qed

text \<open>
  Claim C8. When the customer name or the container id of a submission is empty, the
  handler shows the error message "Please fill in all fields" and returns the state as
  it was: the table and the file are unchanged.
\<close>

theorem add_record_rejects_empty_fields:
  assumes "name = [] \<or> cid = []"
  shows "add_new_record True name cid arrival delivery s
           = (s, [St_error ''Please fill in all fields''])"
  using assms by (auto simp: add_new_record_def)

theorem add_record_rejects_empty_fields_witness:
  "([] = ([]::string) \<or> ''C1'' = [])
   \<and> add_new_record True [] ''C1'' (ymd2ord 2024 1 1) (ymd2ord 2024 1 3)
        \<lparr>data = [bolt_b1], csv_file = Some (to_csv [bolt_b1])\<rparr>
      = (\<lparr>data = [bolt_b1], csv_file = Some (to_csv [bolt_b1])\<rparr>,
         [St_error ''Please fill in all fields''])"
  using add_record_rejects_empty_fields[of "[]" "''C1''" "ymd2ord 2024 1 1" "ymd2ord 2024 1 3"
      "\<lparr>data = [bolt_b1], csv_file = Some (to_csv [bolt_b1])\<rparr>"]
  by simp

text \<open>
  Claim C9. For a submission with a customer name and a container id, the table after
  the handler is the table before it followed by the new record, so the earlier records
  keep their values and their order, and the file holds the new table, written in the
  same invocation.
\<close>

theorem add_record_appends_and_saves:
  assumes "name \<noteq> []" and "cid \<noteq> []"
    and "s' = fst (add_new_record True name cid arrival delivery s)"
  shows "data s' = data s @ [\<lparr>customer_name = Some name, container_id = Some cid,
                              arrival_date = arrival, delivery_date = Some delivery,
                              days_to_deliver = Some (delivery - arrival),
                              arrival_kind = Py_date, delivery_kind = Py_date\<rparr>]
       \<and> take (length (data s)) (data s') = data s
       \<and> csv_file s' = Some (to_csv (data s'))"
  using assms by (simp add: add_new_record_def save_data_def Let_def)

theorem add_record_appends_and_saves_witness:
  "''Acme'' \<noteq> [] \<and> ''C1'' \<noteq> []
   \<and> data (fst (add_new_record True ''Acme'' ''C1'' (ymd2ord 2024 1 1) (ymd2ord 2024 1 3)
                  \<lparr>data = [bolt_b1], csv_file = None\<rparr>))
      = [bolt_b1, acme_c1_new]
   \<and> csv_file (fst (add_new_record True ''Acme'' ''C1'' (ymd2ord 2024 1 1) (ymd2ord 2024 1 3)
                  \<lparr>data = [bolt_b1], csv_file = None\<rparr>))
      = Some (to_csv [bolt_b1, acme_c1_new])"
proof -
  let ?s = "\<lparr>data = [bolt_b1], csv_file = None\<rparr>"
  let ?s' = "fst (add_new_record True ''Acme'' ''C1'' (ymd2ord 2024 1 1) (ymd2ord 2024 1 3) ?s)"
  have h1: "''Acme'' \<noteq> []" and h2: "''C1'' \<noteq> []"
    by simp_all
  have new: "\<lparr>customer_name = Some ''Acme'', container_id = Some ''C1'',
              arrival_date = ymd2ord 2024 1 1, delivery_date = Some (ymd2ord 2024 1 3),
              days_to_deliver = Some (ymd2ord 2024 1 3 - ymd2ord 2024 1 1),
              arrival_kind = Py_date, delivery_kind = Py_date\<rparr> = acme_c1_new"
    by (simp add: acme_c1_new_def acme_c1_def date_defs)
  from add_record_appends_and_saves[OF h1 h2 refl, of "ymd2ord 2024 1 1" "ymd2ord 2024 1 3" ?s]
  have "data ?s' = [bolt_b1, acme_c1_new] \<and> csv_file ?s' = Some (to_csv (data ?s'))"
    unfolding new by simp
  then show ?thesis
    by simp
qed

text \<open>
  Claim C10. The statistics page, the placement page and the data management page
  without a confirmed clear (the table and the download button) return the state they
  were given. For a whole run of the script on one of these pages, the state after the
  run is the state as \<open>load_data\<close> read it at the start of the run, and the file is the
  one before the run.
\<close>

theorem read_only_pages_keep_state:
  "fst (view_customer_stats selected s) = s
   \<and> fst (placement_suggestions now s) = s
   \<and> (\<not> (clear \<and> confirm) \<longrightarrow> fst (data_management clear confirm s) = s)
   \<and> (m = View_Customer_Stats selected \<or> m = Container_Placement_Suggestions now
        \<or> m = Data_Management clear False
      \<longrightarrow> fst (run_script m s) = load_data s \<and> csv_file (fst (run_script m s)) = csv_file s)"
proof -
  have p: "\<not> (clear \<and> confirm) \<longrightarrow> fst (data_management clear confirm s') = s'" for s' confirm
    by (simp add: data_management_def Let_def)
  have f: "csv_file (load_data s) = csv_file s"
    by (simp add: load_data_def split: option.split)
  from p f show ?thesis
    by (auto simp: run_script_def view_customer_stats_state placement_suggestions_state)
qed

theorem read_only_pages_keep_state_witness:
  "\<not> (True \<and> False)
   \<and> fst (data_management True False \<lparr>data = [acme_c1], csv_file = Some (to_csv [acme_c1])\<rparr>)
       = \<lparr>data = [acme_c1], csv_file = Some (to_csv [acme_c1])\<rparr>
   \<and> fst (run_script (View_Customer_Stats (Some ''Acme''))
            \<lparr>data = [acme_c1], csv_file = Some (to_csv [acme_c1])\<rparr>)
       = \<lparr>data = [acme_c1], csv_file = Some (to_csv [acme_c1])\<rparr>"
proof -
  let ?s = "\<lparr>data = [acme_c1], csv_file = Some (to_csv [acme_c1])\<rparr>"
  have l: "load_data ?s = ?s"
    by (simp add: load_data_def csv_defs acme_c1_def)
  from read_only_pages_keep_state[of "Some ''Acme''" ?s jan_10_morning True False
      "View_Customer_Stats (Some ''Acme'')"] l
  show ?thesis
    by simp
qed

end
